theory Spec2Isabelle
  imports Main
begin

section \<open>Python values and exceptions\<close>

text \<open>
  The records that \<^verbatim>\<open>api.get_messages\<close> returns are decoded JSON: loosely typed Python
  values. A dict is an association list holding each key once, in insertion order.
\<close>

datatype pyval =
    PyNone
  | PyBool bool
  | PyInt int
  | PyStr string
  | PyList "pyval list"
  | PyDict "(string \<times> pyval) list"

text \<open>
  An instance of a subclass of \<^verbatim>\<open>Exception\<close>: the name of its class and its
  \<^verbatim>\<open>args\<close> tuple. These are the exceptions that \<^verbatim>\<open>except Exception\<close> catches.
\<close>

datatype exn = Exception (exn_class: string) (exn_args: "pyval list")

text \<open>Decimal rendering of an index, as an f-string renders an \<^verbatim>\<open>int\<close>.\<close>

fun show_nat :: "nat \<Rightarrow> string" where
  "show_nat n =
     (if n < 10 then [char_of (48 + n)]
      else show_nat (n div 10) @ [char_of (48 + n mod 10)])"

declare show_nat.simps [simp del]

definition show_int :: "int \<Rightarrow> string" where
  "show_int i = (if i < 0 then CHR ''-'' # show_nat (nat (- i)) else show_nat (nat i))"

text \<open>
  \<^verbatim>\<open>'{}'.format(v)\<close>: a \<^verbatim>\<open>str\<close> is inserted as it is, \<^verbatim>\<open>None\<close>, booleans and integers by
  their names and digits. For a list or a dict Python inserts its \<^verbatim>\<open>repr\<close>, which is a
  builtin taken here as the parameter \<open>rp\<close>.
\<close>

fun py_format :: "(pyval \<Rightarrow> string) \<Rightarrow> pyval \<Rightarrow> string" where
  "py_format rp (PyStr s) = s"
| "py_format rp PyNone = ''None''"
| "py_format rp (PyBool b) = (if b then ''True'' else ''False'')"
| "py_format rp (PyInt i) = show_int i"
| "py_format rp v = rp v"

text \<open>A name between single quotes, as Python's error messages write it.\<close>

definition quoted :: "string \<Rightarrow> string" where
  "quoted s = [CHR 0x27] @ s @ [CHR 0x27]"

text \<open>
  Iterating a value, as \<^verbatim>\<open>enumerate(messages)\<close> does: a list gives its elements, a dict its
  keys, a string its characters; \<^verbatim>\<open>None\<close>, a boolean or an integer raises \<^verbatim>\<open>TypeError\<close>.
\<close>

fun py_iter :: "pyval \<Rightarrow> exn + pyval list" where
  "py_iter (PyList xs) = Inr xs"
| "py_iter (PyDict kvs) = Inr (map (\<lambda>kv. PyStr (fst kv)) kvs)"
| "py_iter (PyStr s) = Inr (map (\<lambda>c. PyStr [c]) s)"
| "py_iter PyNone = Inl (Exception ''TypeError'' [PyStr (quoted ''NoneType'' @ '' object is not iterable'')])"
| "py_iter (PyBool b) = Inl (Exception ''TypeError'' [PyStr (quoted ''bool'' @ '' object is not iterable'')])"
| "py_iter (PyInt i) = Inl (Exception ''TypeError'' [PyStr (quoted ''int'' @ '' object is not iterable'')])"

text \<open>\<^verbatim>\<open>(type(m) is dict) and ('text' in m.keys())\<close>\<close>

fun has_text :: "pyval \<Rightarrow> bool" where
  "has_text (PyDict kvs) = (''text'' \<in> set (map fst kvs))"
| "has_text _ = False"

text \<open>
  \<^verbatim>\<open>m[key]\<close> with a string key: \<^verbatim>\<open>KeyError\<close> on a dict without the key, \<^verbatim>\<open>TypeError\<close> on
  a value that is not a dict.
\<close>

fun getitem :: "pyval \<Rightarrow> string \<Rightarrow> exn + pyval" where
  "getitem (PyDict kvs) k =
     (case map_of kvs k of
        Some v \<Rightarrow> Inr v
      | None \<Rightarrow> Inl (Exception ''KeyError'' [PyStr k]))"
| "getitem (PyList xs) k =
     Inl (Exception ''TypeError'' [PyStr ''list indices must be integers or slices, not str''])"
| "getitem (PyStr s) k =
     Inl (Exception ''TypeError'' [PyStr (''string indices must be integers, not '' @ quoted ''str'')])"
| "getitem PyNone k =
     Inl (Exception ''TypeError'' [PyStr (quoted ''NoneType'' @ '' object is not subscriptable'')])"
| "getitem (PyBool b) k =
     Inl (Exception ''TypeError'' [PyStr (quoted ''bool'' @ '' object is not subscriptable'')])"
| "getitem (PyInt i) k =
     Inl (Exception ''TypeError'' [PyStr (quoted ''int'' @ '' object is not subscriptable'')])"

text \<open>\<^verbatim>\<open>sep.join(xs)\<close>\<close>

fun str_join :: "string \<Rightarrow> string list \<Rightarrow> string" where
  "str_join sep [] = []"
| "str_join sep [x] = x"
| "str_join sep (x # y # ys) = x @ sep @ str_join sep (y # ys)"

section \<open>The collaborators of \<^verbatim>\<open>bot.py\<close>\<close>

text \<open>
  Modelled from the spec: the enumeration \<^verbatim>\<open>BotStates\<close> of \<^verbatim>\<open>states.py\<close>, which is not
  among the sources. \<^verbatim>\<open>bot.py\<close> names its members \<^verbatim>\<open>POSITIVE\<close> and \<^verbatim>\<open>NEGATIVE\<close>; the spec's
  State is the closed set POSITIVE, NEGATIVE, UNKNOWN.
\<close>

datatype BotStates = POSITIVE | NEGATIVE | UNKNOWN

text \<open>
  What a \<^verbatim>\<open>Parser\<close> holds after \<^verbatim>\<open>process\<close>, read through its three accessors
  \<^verbatim>\<open>get_state()\<close>, \<^verbatim>\<open>get_text()\<close> (the response) and \<^verbatim>\<open>get_text_clean()\<close>. The spec
  gives the last two as strings; the empty response is the one that \<^verbatim>\<open>if not response\<close>
  finds false.
\<close>

record parse =
  get_state :: BotStates
  get_text :: string
  get_text_clean :: string

text \<open>
  A Telegram message: its text and the message it replies to, if any. The handlers pass
  the text on without looking into it, so its type is the parameter \<open>'t\<close>
  (\<^verbatim>\<open>Optional[str]\<close> in the library).
\<close>

datatype 't message = Message (msg_text: 't) (reply_to_message: "'t message option")

datatype 't update = Update (message: "'t message option")

text \<open>
  Everything the handlers call that \<^verbatim>\<open>bot.py\<close> does not define:
  \<^item> \<open>state_value s\<close> is \<^verbatim>\<open>BotStates.s.value\<close>;
  \<^item> \<open>state_str s\<close> is what \<^verbatim>\<open>str(p.get_state())\<close> gives when the parser's state is \<open>s\<close>;
  \<^item> \<open>process prompt text\<close> is the result of \<^verbatim>\<open>Parser(...).process(prompt, text)\<close>;
  \<^item> \<open>reply_text s\<close> is \<^verbatim>\<open>await update.message.reply_text(s)\<close>: \<open>None\<close> when it
    returns, \<open>Some e\<close> when it raises \<open>e\<close>;
  \<^item> \<open>store_message text state\<close> is \<^verbatim>\<open>api.store_message(text, state)\<close>: the truth value
    of the status it returns, or the exception it raises;
  \<^item> \<open>get_messages limit state\<close> is \<^verbatim>\<open>api.get_messages({'limit': limit, 'state': state})\<close>;
  \<^item> \<open>repr\<close> is Python's \<^verbatim>\<open>repr\<close>.
\<close>

record 't env =
  state_value :: "BotStates \<Rightarrow> string"
  state_str :: "BotStates \<Rightarrow> string"
  process :: "'t \<Rightarrow> 't \<Rightarrow> parse"
  reply_text :: "string \<Rightarrow> exn option"
  store_message :: "string \<Rightarrow> string \<Rightarrow> exn + bool"
  get_messages :: "nat \<Rightarrow> string \<Rightarrow> exn + pyval"
  repr :: "pyval \<Rightarrow> string"

text \<open>
  What a handler does, in order: the calls to the logger (one constructor for each
  message of the source, carrying the values it interpolates), to the parser, to the
  chat and to the store client.
\<close>

datatype 't event =
    Log_debug_no_content
  | Log_debug_not_a_reply 't
  | Log_debug_reply_to_prompt 't
  | New_parser
  | Process 't 't
  | Log_debug_doing_nothing 't
  | Reply_text string
  | Store_message string string
  | Log_info_storage string bool
  | Log_error_failed_to_store string pyval
  | Get_messages nat string
  | Log_error_skipping string nat pyval

definition MY_BOT_NAME :: string where
  "MY_BOT_NAME = ''wishengine''"

section \<open>The reply handler\<close>

text \<open>
  The \<^verbatim>\<open>try\<close> block that ends \<^verbatim>\<open>answer_if_user_responds_to_claude\<close>. A status that is
  not true raises inside the block; the handler formats \<^verbatim>\<open>e.args[0]\<close> into its error
  message, which raises \<^verbatim>\<open>IndexError\<close> when \<^verbatim>\<open>args\<close> is empty.
\<close>

definition store_response ::
  "'t env \<Rightarrow> string \<Rightarrow> string \<Rightarrow> string \<Rightarrow> 't event list \<times> exn option" where
  "store_response env text_clean state target =
     (case (case store_message env text_clean state of
              Inl e \<Rightarrow> Inl e
            | Inr status \<Rightarrow>
                if \<not> status
                then Inl (Exception ''Exception''
                       [PyStr (''POST request to store '' @ target @ '' did not return valid status'')])
                else Inr status) of
        Inr status \<Rightarrow> ([Store_message text_clean state, Log_info_storage target status], None)
      | Inl e \<Rightarrow>
          (case exn_args e of
             [] \<Rightarrow> ([Store_message text_clean state],
                    Some (Exception ''IndexError'' [PyStr ''tuple index out of range'']))
           | a # _ \<Rightarrow> ([Store_message text_clean state, Log_error_failed_to_store target a], None)))"

text \<open>
  The handler returns the calls it made and how it ended: \<open>None\<close> when it returned,
  \<open>Some e\<close> when \<open>e\<close> left it.
\<close>

definition answer_if_user_responds_to_claude ::
  "'t env \<Rightarrow> 't update \<Rightarrow> 't event list \<times> exn option" where
  "answer_if_user_responds_to_claude env update =
     (case message update of
        None \<Rightarrow> ([Log_debug_no_content], None)
      | Some msg \<Rightarrow>
     (case reply_to_message msg of
        None \<Rightarrow> ([Log_debug_not_a_reply (msg_text msg)], None)
      | Some original \<Rightarrow>
          let prompt = msg_text original;
              p = process env prompt (msg_text msg);
              response = get_text p;
              respond =
                [Log_debug_reply_to_prompt prompt, New_parser, Process prompt (msg_text msg)]
                @ (if response = [] then [Log_debug_doing_nothing (msg_text msg)] else [])
                @ [Reply_text response]
          in (case reply_text env response of
                Some e \<Rightarrow> (respond, Some e)
              | None \<Rightarrow>
                  let state = state_str env (get_state p);
                      text_clean = get_text_clean p;
                      target = ''['' @ state @ '']: '' @ text_clean;
                      stored = store_response env text_clean state target
                  in (respond @ fst stored, snd stored))))"

text \<open>The calls the handler makes on a reply before it answers the user.\<close>

definition before_reply :: "'t env \<Rightarrow> 't message \<Rightarrow> 't message \<Rightarrow> 't event list" where
  "before_reply env msg original =
     [Log_debug_reply_to_prompt (msg_text original), New_parser,
      Process (msg_text original) (msg_text msg)]
     @ (if get_text (process env (msg_text original) (msg_text msg)) = []
        then [Log_debug_doing_nothing (msg_text msg)] else [])"

section \<open>The \<^verbatim>\<open>/fetch\<close> command\<close>

text \<open>
  The inner loop \<^verbatim>\<open>for i, m in enumerate(messages)\<close>, on the elements still to visit,
  with \<^verbatim>\<open>print_me\<close> and the log so far.
\<close>

fun scan_messages ::
  "(pyval \<Rightarrow> string) \<Rightarrow> string \<Rightarrow> nat \<Rightarrow> pyval list \<Rightarrow> string list \<times> 't event list
    \<Rightarrow> (string list \<times> 't event list) \<times> exn option" where
  "scan_messages rp state i [] acc = (acc, None)"
| "scan_messages rp state i (m # ms) acc =
     (if has_text m then
        (case getitem m ''text'' of
           Inl e \<Rightarrow> (acc, Some e)
         | Inr v \<Rightarrow>
             scan_messages rp state (Suc i) ms
               (fst acc @ [''['' @ state @ ''] '' @ py_format rp v], snd acc))
      else scan_messages rp state (Suc i) ms
             (fst acc, snd acc @ [Log_error_skipping state i m]))"

text \<open>The outer loop \<^verbatim>\<open>for state, messages in messages_list\<close>.\<close>

fun scan_list ::
  "(pyval \<Rightarrow> string) \<Rightarrow> (string \<times> pyval) list \<Rightarrow> string list \<times> 't event list
    \<Rightarrow> (string list \<times> 't event list) \<times> exn option" where
  "scan_list rp [] acc = (acc, None)"
| "scan_list rp ((state, messages) # rest) acc =
     (case py_iter messages of
        Inl e \<Rightarrow> (acc, Some e)
      | Inr ms \<Rightarrow>
          (case scan_messages rp state 0 ms acc of
             (acc', Some e) \<Rightarrow> (acc', Some e)
           | (acc', None) \<Rightarrow> scan_list rp rest acc'))"

text \<open>\<^verbatim>\<open>[f'Message #{i}:\n{m}' for i,m in enumerate(print_me)]\<close>\<close>

definition message_lines :: "string list \<Rightarrow> string list" where
  "message_lines print_me =
     map (\<lambda>im. ''Message #'' @ show_nat (fst im) @ '':'' @ [CHR 0x0A] @ snd im)
       (enumerate 0 print_me)"

definition no_messages_text :: string where
  "no_messages_text = ''No messages found from me ('' @ MY_BOT_NAME @ '')''"

text \<open>
  \<^verbatim>\<open>await update.message.reply_text(s)\<close> in a command handler, where nothing has checked
  that the update carries a message.
\<close>

definition send :: "'t env \<Rightarrow> 't update \<Rightarrow> string \<Rightarrow> 't event list \<times> exn option" where
  "send env update s =
     (case message update of
        None \<Rightarrow> ([], Some (Exception ''AttributeError''
                  [PyStr (quoted ''NoneType'' @ '' object has no attribute '' @ quoted ''reply_text'')]))
      | Some msg \<Rightarrow> ([Reply_text s], reply_text env s))"

definition messages_list :: "'t env \<Rightarrow> pyval \<Rightarrow> pyval \<Rightarrow> (string \<times> pyval) list" where
  "messages_list env messages_yes messages_no =
     [(state_value env POSITIVE, messages_yes), (state_value env NEGATIVE, messages_no)]"

definition fetch :: "'t env \<Rightarrow> 't update \<Rightarrow> 't event list \<times> exn option" where
  "fetch env update =
     (case get_messages env 1 (state_value env POSITIVE) of
        Inl e \<Rightarrow> ([Get_messages 1 (state_value env POSITIVE)], Some e)
      | Inr messages_yes \<Rightarrow>
     (case get_messages env 1 (state_value env NEGATIVE) of
        Inl e \<Rightarrow>
          ([Get_messages 1 (state_value env POSITIVE),
            Get_messages 1 (state_value env NEGATIVE)], Some e)
      | Inr messages_no \<Rightarrow>
          let calls = [Get_messages 1 (state_value env POSITIVE),
                       Get_messages 1 (state_value env NEGATIVE)];
              ml = messages_list env messages_yes messages_no
          in if ml = [] then
               (let sent = send env update no_messages_text
                in (calls @ fst sent, snd sent))
             else
               (case scan_list (repr env) ml ([], []) of
                  (acc, Some e) \<Rightarrow> (calls @ snd acc, Some e)
                | (acc, None) \<Rightarrow>
                    let lines = message_lines (fst acc);
                        sent = send env update (str_join [CHR 0x0A, CHR 0x0A] lines)
                    in (calls @ snd acc @ fst sent, snd sent))))"

section \<open>What the display of fetched records should be\<close>

text \<open>
  The spec's reading of the two loops of \<^verbatim>\<open>fetch\<close>, to compare them with: the records
  that are shown are those that are a dict with a \<^verbatim>\<open>text\<close> key, each as
  \<^verbatim>\<open>[state] text\<close> and in the order received; every other record is reported once,
  by its index among the records received.
\<close>

fun text_of :: "pyval \<Rightarrow> pyval" where
  "text_of (PyDict kvs) = (case map_of kvs ''text'' of Some v \<Rightarrow> v | None \<Rightarrow> PyNone)"
| "text_of _ = PyNone"

definition shown_records :: "(pyval \<Rightarrow> string) \<Rightarrow> string \<Rightarrow> pyval list \<Rightarrow> string list" where
  "shown_records rp state ms =
     map (\<lambda>m. ''['' @ state @ ''] '' @ py_format rp (text_of m)) (filter has_text ms)"

definition skipped_records :: "string \<Rightarrow> nat \<Rightarrow> pyval list \<Rightarrow> 't event list" where
  "skipped_records state i ms =
     map (\<lambda>im. Log_error_skipping state (fst im) (snd im))
       (filter (\<lambda>im. \<not> has_text (snd im)) (enumerate i ms))"

section \<open>The parser and the store client, from the spec\<close>

text \<open>ASCII whitespace, the characters of Python's \<^verbatim>\<open>string.whitespace\<close>.\<close>

definition is_space :: "char \<Rightarrow> bool" where
  "is_space c = (c \<in> set [CHR 0x20, CHR 0x09, CHR 0x0A, CHR 0x0B, CHR 0x0C, CHR 0x0D])"

text \<open>
  Modelled from the spec: \<^verbatim>\<open>Parser.process\<close> of \<^verbatim>\<open>parser.py\<close>, which is not among the
  sources. Step 1 of the spec's algorithm: an empty or all-whitespace reply gives state
  UNKNOWN, an empty clean text and an empty response. The rule set of steps 2 to 4, which
  the spec leaves open, is the parameter \<open>rules\<close>.
\<close>

definition Parser_process :: "(string \<Rightarrow> string \<Rightarrow> parse) \<Rightarrow> string \<Rightarrow> string \<Rightarrow> parse" where
  "Parser_process rules prompt reply =
     (if list_all is_space reply
      then \<lparr>get_state = UNKNOWN, get_text = [], get_text_clean = []\<rparr>
      else rules prompt reply)"

datatype store_error = StoreError

text \<open>
  Modelled from the spec: \<^verbatim>\<open>MessageStoreClient.fetch(state, limit)\<close> of \<^verbatim>\<open>api_client.py\<close>,
  which is not among the sources (\<^verbatim>\<open>bot.py\<close> only calls \<^verbatim>\<open>api.get_messages\<close>, with limit 1).
  A limit of 0 returns an empty sequence without error; otherwise the client requests up
  to \<open>limit\<close> records matching the state's token, a call that fails or times out (\<open>None\<close>)
  surfaces as \<open>StoreError\<close>, and the records without a \<^verbatim>\<open>text\<close> field are dropped.
\<close>

definition client_fetch ::
  "(string \<Rightarrow> nat \<Rightarrow> pyval list option) \<Rightarrow> (BotStates \<Rightarrow> string) \<Rightarrow> BotStates \<Rightarrow> nat
    \<Rightarrow> store_error + pyval list" where
  "client_fetch http_get to_token state limit =
     (if limit = 0 then Inr []
      else (case http_get (to_token state) limit of
              None \<Rightarrow> Inl StoreError
            | Some records \<Rightarrow> Inr (filter has_text (take limit records))))"

section \<open>Concrete collaborators for the examples\<close>



fun demo_value :: "BotStates \<Rightarrow> string" where
  "demo_value POSITIVE = ''positive''"
| "demo_value NEGATIVE = ''negative''"
| "demo_value UNKNOWN = ''unknown''"

text \<open>A rule set for the examples; the spec fixes none.\<close>

definition demo_rules :: "string \<Rightarrow> string \<Rightarrow> parse" where
  "demo_rules prompt reply =
     (if reply = ''yes'' then \<lparr>get_state = POSITIVE, get_text = ''Noted: yes'', get_text_clean = ''yes''\<rparr>
      else if reply = ''no'' then \<lparr>get_state = NEGATIVE, get_text = ''Noted: no'', get_text_clean = ''no''\<rparr>
      else \<lparr>get_state = UNKNOWN, get_text = [], get_text_clean = reply\<rparr>)"

text \<open>
  A chat that delivers every message, a store that accepts every message and holds one
  record for each state, and a \<^verbatim>\<open>str\<close> of the parser's state that is the member's value.
\<close>

definition demo_env :: "string env" where
  "demo_env =
     \<lparr>state_value = demo_value,
      state_str = demo_value,
      process = Parser_process demo_rules,
      reply_text = (\<lambda>s. None),
      store_message = (\<lambda>t s. Inr True),
      get_messages = (\<lambda>limit s.
        if s = ''positive'' then Inr (PyList [PyDict [(''text'', PyStr ''yes'')]])
        else Inr (PyList [PyInt 7])),
      repr = (\<lambda>v. ''...'')\<rparr>"

definition reply_update :: "string \<Rightarrow> string \<Rightarrow> string update" where
  "reply_update prompt reply = Update (Some (Message reply (Some (Message prompt None))))"

section \<open>The shape of a run of the reply handler\<close>

lemma store_response_events:
  "\<exists>post. fst (store_response env text_clean state target) = Store_message text_clean state # post
     \<and> (\<forall>t s. Store_message t s \<notin> set post)"
  by (auto simp: store_response_def split: sum.splits list.splits)

lemma before_reply_events:
  "Store_message t s \<notin> set (before_reply env msg original)"
  "Reply_text r \<notin> set (before_reply env msg original)"
  by (simp_all add: before_reply_def)

lemma before_reply_store [simp]:
  "before_reply (env\<lparr>store_message := store'\<rparr>) msg original = before_reply env msg original"
  by (simp add: before_reply_def)

lemma answer_reply_failed:
  assumes "message update = Some msg" "reply_to_message msg = Some original"
    and "reply_text env (get_text (process env (msg_text original) (msg_text msg))) = Some e"
  shows "answer_if_user_responds_to_claude env update =
     (before_reply env msg original
        @ [Reply_text (get_text (process env (msg_text original) (msg_text msg)))], Some e)"
  using assms
  by (simp add: answer_if_user_responds_to_claude_def before_reply_def Let_def)

lemma answer_reply_sent:
  assumes "message update = Some msg" "reply_to_message msg = Some original"
    and "reply_text env (get_text (process env (msg_text original) (msg_text msg))) = None"
  shows "answer_if_user_responds_to_claude env update =
     (before_reply env msg original
        @ Reply_text (get_text (process env (msg_text original) (msg_text msg)))
        # fst (store_response env
                (get_text_clean (process env (msg_text original) (msg_text msg)))
                (state_str env (get_state (process env (msg_text original) (msg_text msg))))
                (''['' @ state_str env (get_state (process env (msg_text original) (msg_text msg)))
                   @ '']: '' @ get_text_clean (process env (msg_text original) (msg_text msg)))),
      snd (store_response env
                (get_text_clean (process env (msg_text original) (msg_text msg)))
                (state_str env (get_state (process env (msg_text original) (msg_text msg))))
                (''['' @ state_str env (get_state (process env (msg_text original) (msg_text msg)))
                   @ '']: '' @ get_text_clean (process env (msg_text original) (msg_text msg)))))"
  using assms
  by (simp add: answer_if_user_responds_to_claude_def before_reply_def Let_def)

lemmas demo_defs = demo_env_def reply_update_def Parser_process_def demo_rules_def is_space_def

text \<open>
  What the \<^verbatim>\<open>try\<close> block does with each outcome of the store call that it handles: an
  exception that carries an argument and a status that is not true are logged, and the
  handler returns.
\<close>

lemma store_response_caught:
  "store_message env text_clean state = Inl e \<Longrightarrow> exn_args e = a # as \<Longrightarrow>
     store_response env text_clean state target =
       ([Store_message text_clean state, Log_error_failed_to_store target a], None)"
  "store_message env text_clean state = Inr False \<Longrightarrow>
     store_response env text_clean state target =
       ([Store_message text_clean state,
         Log_error_failed_to_store target
           (PyStr (''POST request to store '' @ target @ '' did not return valid status''))], None)"
  "store_message env text_clean state = Inr True \<Longrightarrow>
     store_response env text_clean state target =
       ([Store_message text_clean state, Log_info_storage target True], None)"
  by (simp_all add: store_response_def)

section \<open>The two loops of \<^verbatim>\<open>fetch\<close>\<close>

lemma getitem_text: "has_text m \<Longrightarrow> getitem m ''text'' = Inr (text_of m)"
proof (cases m)
  case (PyDict kvs)
  assume "has_text m"
  with PyDict have "''text'' \<in> fst ` set kvs" by simp
  then obtain v where "map_of kvs ''text'' = Some v"
    by (metis domD dom_map_of_conv_image_fst)
  with PyDict show ?thesis by simp
qed simp_all

lemma scan_messages_eq:
  "scan_messages rp state i ms acc =
     ((fst acc @ shown_records rp state ms, snd acc @ skipped_records state i ms), None)"
proof (induction ms arbitrary: i acc)
  case Nil
  show ?case by (simp add: shown_records_def skipped_records_def)
next
  case (Cons m ms)
  show ?case
  proof (cases "has_text m")
    case True
    then show ?thesis
      by (simp add: Cons.IH getitem_text shown_records_def skipped_records_def enumerate_simps)
  next
    case False
    then show ?thesis
      by (simp add: Cons.IH shown_records_def skipped_records_def)
  qed
qed

lemma skipped_records_events:
  "e \<in> set (skipped_records state i ms) \<Longrightarrow> \<exists>j m. e = Log_error_skipping state j m"
  by (auto simp: skipped_records_def)

lemma scan_list_log:
  "e \<in> set (snd (fst (scan_list rp ml acc))) \<Longrightarrow>
     e \<in> set (snd acc) \<or> (\<exists>state j m. e = Log_error_skipping state j m)"
proof (induction ml arbitrary: acc)
  case Nil
  then show ?case by simp
next
  case (Cons sm rest)
  obtain state messages where sm: "sm = (state, messages)" by (cases sm)
  show ?case
  proof (cases "py_iter messages")
    case (Inl e')
    with Cons.prems sm show ?thesis by simp
  next
    case (Inr ms)
    with Cons.prems sm have
      "e \<in> set (snd (fst (scan_list rp rest
          (fst acc @ shown_records rp state ms, snd acc @ skipped_records state 0 ms))))"
      by (simp add: scan_messages_eq)
    from Cons.IH [OF this] show ?thesis
      by (auto dest: skipped_records_events)
  qed
qed

lemma hd_str_join: "x \<noteq> [] \<Longrightarrow> hd (str_join sep (x # xs)) = hd x"
  by (cases xs) simp_all

lemma display_not_no_messages:
  "str_join sep (message_lines print_me) \<noteq> no_messages_text"
proof (cases print_me)
  case Nil
  then show ?thesis by (simp add: message_lines_def no_messages_text_def)
next
  case (Cons m ms)
  have "hd (str_join sep (message_lines print_me)) = CHR ''M''"
    unfolding Cons message_lines_def by (simp add: enumerate_simps hd_str_join)
  moreover have "hd no_messages_text = CHR ''N''"
    by (simp add: no_messages_text_def)
  ultimately show ?thesis by auto
qed


section \<open>Updates that are not replies\<close>

text \<open>
  C9. An update without a message, or whose message is not a reply, makes the reply
  handler return after one debug log: no parser is constructed, nothing is sent to the
  user and the store is not called.
\<close>

theorem not_a_reply_returns_early:
  assumes "message update = None \<or> (\<exists>msg. message update = Some msg \<and> reply_to_message msg = None)"
  shows "snd (answer_if_user_responds_to_claude env update) = None
    \<and> (\<exists>e. fst (answer_if_user_responds_to_claude env update) = [e]
          \<and> (e = Log_debug_no_content \<or> (\<exists>t. e = Log_debug_not_a_reply t)))
    \<and> New_parser \<notin> set (fst (answer_if_user_responds_to_claude env update))
    \<and> (\<forall>p t. Process p t \<notin> set (fst (answer_if_user_responds_to_claude env update)))
    \<and> (\<forall>s. Reply_text s \<notin> set (fst (answer_if_user_responds_to_claude env update)))
    \<and> (\<forall>t s. Store_message t s \<notin> set (fst (answer_if_user_responds_to_claude env update)))"
  using assms by (auto simp: answer_if_user_responds_to_claude_def)

theorem not_a_reply_returns_early_witness:
  "answer_if_user_responds_to_claude demo_env (Update None) = ([Log_debug_no_content], None)
   \<and> answer_if_user_responds_to_claude demo_env (Update (Some (Message ''hello'' None)))
       = ([Log_debug_not_a_reply ''hello''], None)"
  using not_a_reply_returns_early [of "Update None" demo_env]
    not_a_reply_returns_early [of "Update (Some (Message ''hello'' None))" demo_env]
  by (simp add: answer_if_user_responds_to_claude_def)

section \<open>The response goes out before the store is called\<close>

text \<open>
  C2. Whenever the reply handler calls the store, the call to \<^verbatim>\<open>reply_text\<close> comes
  immediately before it in the run and has returned; no store call precedes it; and the
  run up to and including the reply is the same whatever the store call does (return,
  fail or time out).
\<close>

theorem response_precedes_store:
  assumes "Store_message t s \<in> set (fst (answer_if_user_responds_to_claude env update))"
  shows "\<exists>pre post r.
      fst (answer_if_user_responds_to_claude env update) = pre @ Reply_text r # Store_message t s # post
    \<and> reply_text env r = None
    \<and> (\<forall>t' s'. Store_message t' s' \<notin> set pre)
    \<and> (\<forall>store'. take (Suc (length pre))
          (fst (answer_if_user_responds_to_claude (env\<lparr>store_message := store'\<rparr>) update))
         = pre @ [Reply_text r])"
proof -
  let ?h = "answer_if_user_responds_to_claude"
  from assms obtain msg original where
    m: "message update = Some msg" and o: "reply_to_message msg = Some original"
    by (auto simp: answer_if_user_responds_to_claude_def split: option.splits)
  define p where "p = process env (msg_text original) (msg_text msg)"
  define tc where "tc = get_text_clean p"
  define st where "st = state_str env (get_state p)"
  define tg where "tg = ''['' @ st @ '']: '' @ tc"
  define pre where "pre = before_reply env msg original"
  have pre_free: "Store_message t' s' \<notin> set pre" "Reply_text r' \<notin> set pre" for t' s' r'
    by (simp_all add: pre_def before_reply_events)
  show ?thesis
  proof (cases "reply_text env (get_text p)")
    case (Some e)
    then have "fst (?h env update) = pre @ [Reply_text (get_text p)]"
      using answer_reply_failed [OF m o, of env e] by (simp add: p_def pre_def)
    with assms pre_free show ?thesis by auto
  next
    case None
    have sent: "fst (?h (env\<lparr>store_message := store'\<rparr>) update) =
        pre @ Reply_text (get_text p) # fst (store_response (env\<lparr>store_message := store'\<rparr>) tc st tg)"
      for store'
      using answer_reply_sent [of update msg original "env\<lparr>store_message := store'\<rparr>"] m o None
      by (simp add: p_def tc_def st_def tg_def pre_def)
    have here: "fst (?h env update) = pre @ Reply_text (get_text p) # fst (store_response env tc st tg)"
      using answer_reply_sent [OF m o, of env] None
      by (simp add: p_def tc_def st_def tg_def pre_def)
    obtain post where post: "fst (store_response env tc st tg) = Store_message tc st # post"
      and post_free: "\<forall>t s. Store_message t s \<notin> set post"
      using store_response_events by blast
    from here post assms pre_free post_free have ts: "t = tc" "s = st" by auto
    have "take (Suc (length pre)) (fst (?h (env\<lparr>store_message := store'\<rparr>) update))
        = pre @ [Reply_text (get_text p)]" for store'
      using sent [of store'] by simp
    with here None post ts pre_free show ?thesis by auto
  qed
qed

theorem response_precedes_store_witness:
  "Store_message ''yes'' ''positive''
     \<in> set (fst (answer_if_user_responds_to_claude
          (demo_env\<lparr>store_message := (\<lambda>t s. Inl (Exception ''Timeout'' [PyStr ''timed out'']))\<rparr>)
          (reply_update ''Do you like X?'' ''yes'')))
   \<and> (\<exists>pre post r.
      fst (answer_if_user_responds_to_claude
          (demo_env\<lparr>store_message := (\<lambda>t s. Inl (Exception ''Timeout'' [PyStr ''timed out'']))\<rparr>)
          (reply_update ''Do you like X?'' ''yes''))
        = pre @ Reply_text r # Store_message ''yes'' ''positive'' # post)"
proof -
  have h: "Store_message ''yes'' ''positive''
     \<in> set (fst (answer_if_user_responds_to_claude
          (demo_env\<lparr>store_message := (\<lambda>t s. Inl (Exception ''Timeout'' [PyStr ''timed out'']))\<rparr>)
          (reply_update ''Do you like X?'' ''yes'')))"
    by (simp add: answer_if_user_responds_to_claude_def demo_env_def reply_update_def
        Parser_process_def demo_rules_def is_space_def store_response_def Let_def)
  from response_precedes_store [OF h] h show ?thesis by blast
qed

section \<open>An empty response is still passed to the chat\<close>

text \<open>
  C1. The claim is that nothing is sent when the parser's response is empty. The handler
  logs \<^verbatim>\<open>Doing nothing\<close> and then goes on without returning: on every reply whose parse
  has an empty response, its first five calls end with \<^verbatim>\<open>reply_text\<close> on the empty string.
\<close>

theorem empty_response_is_sent:
  assumes "message update = Some msg" and "reply_to_message msg = Some original"
    and "get_text (process env (msg_text original) (msg_text msg)) = []"
  shows "take 5 (fst (answer_if_user_responds_to_claude env update)) =
      [Log_debug_reply_to_prompt (msg_text original), New_parser,
       Process (msg_text original) (msg_text msg),
       Log_debug_doing_nothing (msg_text msg), Reply_text []]"
proof (cases "reply_text env []")
  case None
  then show ?thesis
    using answer_reply_sent [OF assms(1,2), of env] assms(3) by (simp add: before_reply_def)
next
  case (Some e)
  then show ?thesis
    using answer_reply_failed [OF assms(1,2), of env e] assms(3) by (simp add: before_reply_def)
qed

theorem empty_response_is_sent_witness:
  "answer_if_user_responds_to_claude demo_env (reply_update ''Do you like X?'' ''meh'') =
     ([Log_debug_reply_to_prompt ''Do you like X?'', New_parser,
       Process ''Do you like X?'' ''meh'', Log_debug_doing_nothing ''meh'',
       Reply_text [], Store_message ''meh'' ''unknown'',
       Log_info_storage ''[unknown]: meh'' True], None)
   \<and> take 5 (fst (answer_if_user_responds_to_claude demo_env (reply_update ''Do you like X?'' ''meh''))) =
     [Log_debug_reply_to_prompt ''Do you like X?'', New_parser,
       Process ''Do you like X?'' ''meh'', Log_debug_doing_nothing ''meh'', Reply_text []]"
  using empty_response_is_sent [of "reply_update ''Do you like X?'' ''meh''"
      "Message ''meh'' (Some (Message ''Do you like X?'' None))" "Message ''Do you like X?'' None" demo_env]
  by (simp add: answer_if_user_responds_to_claude_def demo_defs store_response_def Let_def)

section \<open>A store exception without arguments leaves the handler\<close>

text \<open>
  C4. The claim is that every store failure is caught and logged. When the store call
  raises an exception whose \<^verbatim>\<open>args\<close> is empty, the \<^verbatim>\<open>except\<close> block's \<^verbatim>\<open>e.args[0]\<close>
  raises \<^verbatim>\<open>IndexError\<close>: that exception leaves the handler and no failure is logged.
\<close>

theorem store_exception_without_args_escapes:
  assumes "message update = Some msg" and "reply_to_message msg = Some original"
    and "reply_text env (get_text (process env (msg_text original) (msg_text msg))) = None"
    and "store_message env (get_text_clean (process env (msg_text original) (msg_text msg)))
           (state_str env (get_state (process env (msg_text original) (msg_text msg)))) = Inl e"
    and "exn_args e = []"
  shows "snd (answer_if_user_responds_to_claude env update)
           = Some (Exception ''IndexError'' [PyStr ''tuple index out of range''])
     \<and> (\<forall>target a. Log_error_failed_to_store target a
           \<notin> set (fst (answer_if_user_responds_to_claude env update)))"
  using answer_reply_sent [OF assms(1,2,3)] assms(4,5)
  by (simp add: store_response_def before_reply_def)

theorem store_exception_without_args_escapes_witness:
  "answer_if_user_responds_to_claude
     (demo_env\<lparr>store_message := (\<lambda>t s. Inl (Exception ''TimeoutError'' []))\<rparr>)
     (reply_update ''Do you like X?'' ''yes'') =
     ([Log_debug_reply_to_prompt ''Do you like X?'', New_parser,
       Process ''Do you like X?'' ''yes'', Reply_text ''Noted: yes'',
       Store_message ''yes'' ''positive''],
      Some (Exception ''IndexError'' [PyStr ''tuple index out of range'']))"
  using store_exception_without_args_escapes
    [of "reply_update ''Do you like X?'' ''yes''"
      "Message ''yes'' (Some (Message ''Do you like X?'' None))" "Message ''Do you like X?'' None"
      "demo_env\<lparr>store_message := (\<lambda>t s. Inl (Exception ''TimeoutError'' []))\<rparr>"
      "Exception ''TimeoutError'' []"]
  by (simp add: answer_if_user_responds_to_claude_def demo_defs store_response_def Let_def)

section \<open>A whitespace reply is answered and stored\<close>

text \<open>
  C7. For an empty or all-whitespace reply the parser, as the spec describes it, gives
  state UNKNOWN, an empty clean text and an empty response. The claim goes on: nothing is
  sent, nothing is stored. The handler does call \<^verbatim>\<open>reply_text\<close> on the empty response and,
  when that call returns, \<^verbatim>\<open>store_message\<close> on the empty clean text.
\<close>

theorem whitespace_reply_is_sent_and_stored:
  assumes "list_all is_space reply" and "process env = Parser_process rules"
  shows "Parser_process rules prompt reply = \<lparr>get_state = UNKNOWN, get_text = [], get_text_clean = []\<rparr>
     \<and> Reply_text [] \<in> set (fst (answer_if_user_responds_to_claude env (reply_update prompt reply)))
     \<and> (reply_text env [] = None \<longrightarrow>
          Store_message [] (state_str env UNKNOWN)
            \<in> set (fst (answer_if_user_responds_to_claude env (reply_update prompt reply))))"
  using assms
  by (simp add: answer_if_user_responds_to_claude_def reply_update_def Parser_process_def
      store_response_def Let_def split: option.splits sum.splits list.splits)

theorem whitespace_reply_is_sent_and_stored_witness:
  "list_all is_space ''   ''
   \<and> answer_if_user_responds_to_claude demo_env (reply_update ''Do you like X?'' ''   '') =
     ([Log_debug_reply_to_prompt ''Do you like X?'', New_parser,
       Process ''Do you like X?'' ''   '', Log_debug_doing_nothing ''   '',
       Reply_text [], Store_message [] ''unknown'',
       Log_info_storage ''[unknown]: '' True], None)"
  using whitespace_reply_is_sent_and_stored [of "''   ''" demo_env demo_rules "''Do you like X?''"]
  by (simp add: answer_if_user_responds_to_claude_def demo_defs store_response_def Let_def)

section \<open>A fetch of no records\<close>

text \<open>
  C8. For every state, the client's \<^verbatim>\<open>fetch(state, 0)\<close> returns an empty sequence and
  signals no error.
\<close>

theorem client_fetch_limit_zero:
  "client_fetch http_get to_token state 0 = Inr []"
  by (simp add: client_fetch_def)

section \<open>Records without a text are skipped one by one\<close>



section \<open>The branch for no messages is never taken\<close>

text \<open>
  C10. \<^verbatim>\<open>messages_list\<close> always has two elements, so \<^verbatim>\<open>fetch\<close> never sends the
  \<^verbatim>\<open>No messages found\<close> text; whenever both fetches return and the loops end, it formats
  what they collected and sends the joined lines, also when no record was returned.
\<close>

theorem no_messages_branch_unreachable:
  "length (messages_list env messages_yes messages_no) = 2
   \<and> Reply_text no_messages_text \<notin> set (fst (fetch env (update :: 't update)))
   \<and> (get_messages env 1 (state_value env POSITIVE) = Inr messages_yes \<longrightarrow>
      get_messages env 1 (state_value env NEGATIVE) = Inr messages_no \<longrightarrow>
      scan_list (repr env) (messages_list env messages_yes messages_no) ([], []) = (acc, None) \<longrightarrow>
      message update = Some msg \<longrightarrow>
      fetch env update =
        ([Get_messages 1 (state_value env POSITIVE), Get_messages 1 (state_value env NEGATIVE)]
           @ snd acc @ [Reply_text (str_join [CHR 0x0A, CHR 0x0A] (message_lines (fst acc)))],
         reply_text env (str_join [CHR 0x0A, CHR 0x0A] (message_lines (fst acc)))))"
proof (intro conjI impI)
  show "length (messages_list env messages_yes messages_no) = 2"
    by (simp add: messages_list_def)
next
  have log: "Reply_text no_messages_text \<notin> set (snd (fst (scan_list rp ml ([], [] :: 't event list))))"
    for rp and ml :: "(string \<times> pyval) list"
    using scan_list_log [of "Reply_text no_messages_text" rp ml "([], [] :: 't event list)"] by auto
  have sent: "Reply_text no_messages_text
      \<notin> set (fst (send env update (str_join sep (message_lines print_me))))" for sep print_me
    using display_not_no_messages [of sep print_me]
    by (auto simp: send_def split: option.splits)
  show "Reply_text no_messages_text \<notin> set (fst (fetch env update))"
  proof (cases "get_messages env 1 (state_value env POSITIVE)")
    case (Inl e)
    then show ?thesis by (simp add: fetch_def)
  next
    case yes: (Inr my)
    show ?thesis
    proof (cases "get_messages env 1 (state_value env NEGATIVE)")
      case (Inl e)
      with yes show ?thesis by (simp add: fetch_def)
    next
      case no: (Inr mn)
      obtain acc' :: "string list \<times> 't event list" and raised where
        sc: "scan_list (repr env) (messages_list env my mn) ([], []) = (acc', raised)"
        by (metis surj_pair)
      have "Reply_text no_messages_text \<notin> set (snd acc')"
        using log [of "repr env" "messages_list env my mn"] sc by simp
      moreover have "messages_list env my mn \<noteq> []"
        by (simp add: messages_list_def)
      ultimately show ?thesis
        using yes no sc sent by (cases raised) (simp_all add: fetch_def Let_def)
    qed
  qed
next
  assume "get_messages env 1 (state_value env POSITIVE) = Inr messages_yes"
    and "get_messages env 1 (state_value env NEGATIVE) = Inr messages_no"
    and "scan_list (repr env) (messages_list env messages_yes messages_no) ([], []) = (acc, None)"
    and "message update = Some msg"
  moreover have "messages_list env messages_yes messages_no \<noteq> []"
    by (simp add: messages_list_def)
  ultimately show "fetch env update =
      ([Get_messages 1 (state_value env POSITIVE), Get_messages 1 (state_value env NEGATIVE)]
         @ snd acc @ [Reply_text (str_join [CHR 0x0A, CHR 0x0A] (message_lines (fst acc)))],
       reply_text env (str_join [CHR 0x0A, CHR 0x0A] (message_lines (fst acc))))"
    by (simp add: fetch_def Let_def send_def)
qed

theorem no_messages_branch_unreachable_witness:
  "fetch (demo_env\<lparr>get_messages := (\<lambda>limit s. Inr (PyList []))\<rparr>) (reply_update ''/fetch'' ''/fetch'')
     = ([Get_messages 1 ''positive'', Get_messages 1 ''negative'', Reply_text []], None)
   \<and> Reply_text no_messages_text \<notin> set (fst (fetch
        (demo_env\<lparr>get_messages := (\<lambda>limit s. Inr (PyList []))\<rparr>) (reply_update ''/fetch'' ''/fetch'')))"
  using no_messages_branch_unreachable
    [of "demo_env\<lparr>get_messages := (\<lambda>limit s. Inr (PyList []))\<rparr>" "PyList []" "PyList []"
      "reply_update ''/fetch'' ''/fetch''" "([], [])"
      "Message ''/fetch'' (Some (Message ''/fetch'' None))"]
  by (simp add: demo_defs messages_list_def message_lines_def no_messages_text_def MY_BOT_NAME_def)

section \<open>The state tokens sent to the store\<close>




end
